theory Spec2Isabelle
  imports Main "HOL-Library.Word" "HOL-Library.Stream"
begin

unbundle bit_operations_syntax

section \<open>The certificate authority of proxychannel (cert/certificate.go)\<close>

text \<open>
  The package forges a leaf certificate for a host, signed by an embedded root, and
  wraps it in a TLS configuration, with an optional cache in front of the forge.
  Pure string and number functions of the Go standard library that the package calls
  (\<open>net.SplitHostPort\<close>, \<open>encoding/hex\<close>, \<open>big.Int.SetString\<close>, \<open>crypto/md5\<close>,
  \<open>time.Date\<close> and \<open>Time.AddDate\<close>) are written out as functions. The cryptographic
  and encoding functions, the random reader and the clock are parameters of the model.
\<close>

subsection \<open>Bytes and strings\<close>

type_synonym byte = "8 word"
type_synonym bytes = "8 word list"

text \<open>The conversion \<open>[]byte(s)\<close>: a Go string is its bytes.\<close>

definition bytes_of :: "string \<Rightarrow> bytes" where
  "bytes_of s = map of_char s"

text \<open>
  \<open>strings.IndexByte\<close> and \<open>strings.LastIndexByte\<close>: the index of the first
  (last) occurrence of a byte, \<open>-1\<close> when there is none.
\<close>

fun IndexByte :: "string \<Rightarrow> char \<Rightarrow> int" where
  "IndexByte [] c = -1"
| "IndexByte (x # xs) c =
     (if x = c then 0 else (let r = IndexByte xs c in if r < 0 then -1 else r + 1))"

definition LastIndexByte :: "string \<Rightarrow> char \<Rightarrow> int" where
  "LastIndexByte s c =
     (let r = IndexByte (rev s) c in if r < 0 then -1 else int (length s) - 1 - r)"

text \<open>The slice \<open>s[a:b]\<close>.\<close>

definition slice :: "string \<Rightarrow> int \<Rightarrow> int \<Rightarrow> string" where
  "slice s a b = take (nat (b - a)) (drop (nat a) s)"

subsection \<open>Errors\<close>

datatype addr_reason =
    MissingPort | TooManyColons | MissingCloseBracket | UnexpectedOpenBracket
  | UnexpectedCloseBracket

datatype error =
    AddrError addr_reason string
  | LibError string

subsection \<open>net.SplitHostPort\<close>

text \<open>
  The port starts after the last colon. A host in brackets must end just before that
  colon; a host without brackets must hold no colon; no bracket may stand anywhere
  else.
\<close>

definition SplitHostPort :: "string \<Rightarrow> error + (string \<times> string)" where
  "SplitHostPort hostport =
     (let i = LastIndexByte hostport (CHR '':'');
          finish = (\<lambda>host j k.
            if IndexByte (drop (nat j) hostport) (CHR ''['') \<ge> 0
              then Inl (AddrError UnexpectedOpenBracket hostport)
            else if IndexByte (drop (nat k) hostport) (CHR '']'') \<ge> 0
              then Inl (AddrError UnexpectedCloseBracket hostport)
            else Inr (host, drop (nat (i + 1)) hostport))
      in
      if i < 0 then Inl (AddrError MissingPort hostport)
      else if hostport \<noteq> [] \<and> hd hostport = CHR ''['' then
        (let e = IndexByte hostport (CHR '']'') in
         if e < 0 then Inl (AddrError MissingCloseBracket hostport)
         else if e + 1 = int (length hostport) then Inl (AddrError MissingPort hostport)
         else if e + 1 = i then finish (slice hostport 1 e) 1 (e + 1)
         else if hostport ! nat (e + 1) = CHR '':''
           then Inl (AddrError TooManyColons hostport)
         else Inl (AddrError MissingPort hostport))
      else
        (let host = slice hostport 0 i in
         if IndexByte host (CHR '':'') \<ge> 0 then Inl (AddrError TooManyColons hostport)
         else finish host 0 0))"

subsection \<open>hex.EncodeToString and big.Int.SetString\<close>

definition hextable :: string where
  "hextable = ''0123456789abcdef''"

fun EncodeToString :: "bytes \<Rightarrow> string" where
  "EncodeToString [] = []"
| "EncodeToString (v # src) =
     hextable ! unat (drop_bit 4 v) # hextable ! unat (v AND 0x0f) # EncodeToString src"

text \<open>
  The value of a digit character, for a base up to 36: \<open>0\<close> to \<open>9\<close>, then the
  letters in either case.
\<close>

definition digit_val :: "char \<Rightarrow> nat option" where
  "digit_val ch =
     (let n = (of_char ch :: nat) in
      if 48 \<le> n \<and> n \<le> 57 then Some (n - 48)
      else if 97 \<le> n \<and> n \<le> 122 then Some (n - 97 + 10)
      else if 65 \<le> n \<and> n \<le> 90 then Some (n - 65 + 10)
      else None)"

fun scan_digits :: "nat \<Rightarrow> nat \<Rightarrow> string \<Rightarrow> nat option" where
  "scan_digits b acc [] = Some acc"
| "scan_digits b acc (ch # cs) =
     (case digit_val ch of
        None \<Rightarrow> None
      | Some d \<Rightarrow> if d < b then scan_digits b (acc * b + d) cs else None)"

text \<open>
  \<open>SetString\<close> with an explicit base: an optional sign, then at least one digit, and
  nothing after the digits. \<open>None\<close> is Go's \<open>ok = false\<close>.
\<close>

definition SetString :: "string \<Rightarrow> nat \<Rightarrow> int option" where
  "SetString s base =
     (let (neg, ds) =
        (case s of
           [] \<Rightarrow> (False, s)
         | ch # r \<Rightarrow>
             if ch = CHR ''-'' then (True, r)
             else if ch = CHR ''+'' then (False, r)
             else (False, s))
      in
      if ds = [] then None
      else map_option (\<lambda>n. if neg then - int n else int n) (scan_digits base 0 ds))"

subsection \<open>crypto/md5\<close>

text \<open>
  The digest of RFC 1321 as \<open>md5.New\<close>, \<open>Write\<close> and \<open>Sum(nil)\<close> compute it: the
  message is padded with \<open>0x80\<close>, zeros up to 56 bytes modulo 64 and the length in bits
  as a little-endian 64-bit number; each block of 64 bytes goes through 64 steps on four
  32-bit words; the digest is the four words, little-endian.
\<close>

definition md5_K :: "32 word list" where
  "md5_K = [
    0xd76aa478, 0xe8c7b756, 0x242070db, 0xc1bdceee,
    0xf57c0faf, 0x4787c62a, 0xa8304613, 0xfd469501,
    0x698098d8, 0x8b44f7af, 0xffff5bb1, 0x895cd7be,
    0x6b901122, 0xfd987193, 0xa679438e, 0x49b40821,
    0xf61e2562, 0xc040b340, 0x265e5a51, 0xe9b6c7aa,
    0xd62f105d, 0x02441453, 0xd8a1e681, 0xe7d3fbc8,
    0x21e1cde6, 0xc33707d6, 0xf4d50d87, 0x455a14ed,
    0xa9e3e905, 0xfcefa3f8, 0x676f02d9, 0x8d2a4c8a,
    0xfffa3942, 0x8771f681, 0x6d9d6122, 0xfde5380c,
    0xa4beea44, 0x4bdecfa9, 0xf6bb4b60, 0xbebfbc70,
    0x289b7ec6, 0xeaa127fa, 0xd4ef3085, 0x04881d05,
    0xd9d4d039, 0xe6db99e5, 0x1fa27cf8, 0xc4ac5665,
    0xf4292244, 0x432aff97, 0xab9423a7, 0xfc93a039,
    0x655b59c3, 0x8f0ccc92, 0xffeff47d, 0x85845dd1,
    0x6fa87e4f, 0xfe2ce6e0, 0xa3014314, 0x4e0811a1,
    0xf7537e82, 0xbd3af235, 0x2ad7d2bb, 0xeb86d391]"

definition md5_shift :: "nat list" where
  "md5_shift = [7, 12, 17, 22, 7, 12, 17, 22, 7, 12, 17, 22, 7, 12, 17, 22,
                5, 9, 14, 20, 5, 9, 14, 20, 5, 9, 14, 20, 5, 9, 14, 20,
                4, 11, 16, 23, 4, 11, 16, 23, 4, 11, 16, 23, 4, 11, 16, 23,
                6, 10, 15, 21, 6, 10, 15, 21, 6, 10, 15, 21, 6, 10, 15, 21]"

definition le32 :: "bytes \<Rightarrow> 32 word" where
  "le32 bs = foldr (\<lambda>b w. push_bit 8 w OR ucast b) (take 4 bs) 0"

definition put_le32 :: "32 word \<Rightarrow> bytes" where
  "put_le32 w = map (\<lambda>i. ucast (drop_bit (8 * i) w)) [0, 1, 2, 3]"

definition put_le64 :: "64 word \<Rightarrow> bytes" where
  "put_le64 w = map (\<lambda>i. ucast (drop_bit (8 * i) w)) [0, 1, 2, 3, 4, 5, 6, 7]"

type_synonym md5_state = "32 word \<times> 32 word \<times> 32 word \<times> 32 word"

fun md5_step :: "32 word list \<Rightarrow> md5_state \<Rightarrow> nat \<Rightarrow> md5_state" where
  "md5_step x (a, b, c, d) i =
     (let (f, g) =
        (if i < 16 then (((c XOR d) AND b) XOR d, i)
         else if i < 32 then (((b XOR c) AND d) XOR c, (5 * i + 1) mod 16)
         else if i < 48 then (b XOR c XOR d, (3 * i + 5) mod 16)
         else (c XOR (b OR NOT d), (7 * i) mod 16))
      in (d, b + word_rotl (md5_shift ! i) (f + a + x ! g + md5_K ! i), b, c))"

definition md5_block :: "md5_state \<Rightarrow> bytes \<Rightarrow> md5_state" where
  "md5_block s p =
     (let x = map (\<lambda>j. le32 (drop (4 * j) p)) [0..<16];
          (a0, b0, c0, d0) = s;
          (a, b, c, d) = foldl (md5_step x) s [0..<64]
      in (a0 + a, b0 + b, c0 + c, d0 + d))"

fun md5_blocks :: "nat \<Rightarrow> md5_state \<Rightarrow> bytes \<Rightarrow> md5_state" where
  "md5_blocks 0 s p = s"
| "md5_blocks (Suc n) s p = md5_blocks n (md5_block s (take 64 p)) (drop 64 p)"

definition md5_Sum :: "bytes \<Rightarrow> bytes" where
  "md5_Sum msg =
     (let len = (of_nat (length msg) :: 64 word);
          pad = unat ((55 - len) mod 64);
          p = msg @ [0x80] @ replicate pad 0 @ put_le64 (push_bit 3 len);
          (a, b, c, d) = md5_blocks (length p div 64)
             (0x67452301, 0xefcdab89, 0x98badcfe, 0x10325476) p
      in put_le32 a @ put_le32 b @ put_le32 c @ put_le32 d)"

subsection \<open>time: instants, Date and AddDate\<close>

text \<open>
  A \<open>time.Time\<close> is an instant: here the number of the day, counted from the first of
  January of year 1 in the proleptic Gregorian calendar, and the nanosecond within the
  day. Go counts days from a year that is 1 modulo 400, so its 400, 100 and 4 year cycles
  are the ones below. The zone offset is taken to be constant, and the clock fields
  (hour, minute, second, nanosecond), which \<open>AddDate\<close> hands to \<open>Date\<close> as they are,
  are the one number \<open>nsec_of_day\<close>.
\<close>

record Time =
  abs_day :: int
  nsec_of_day :: int


definition isLeap :: "int \<Rightarrow> bool" where
  "isLeap year = (year mod 4 = 0 \<and> (year mod 100 \<noteq> 0 \<or> year mod 400 = 0))"

definition daysBefore :: "int list" where
  "daysBefore = [0, 31, 59, 90, 120, 151, 181, 212, 243, 273, 304, 334, 365]"

definition daysSinceEpoch :: "int \<Rightarrow> int" where
  "daysSinceEpoch year =
     (let y = year - 1;
          n400 = y div 400; y1 = y - 400 * n400; d1 = 146097 * n400;
          n100 = y1 div 100; y2 = y1 - 100 * n100; d2 = d1 + 36524 * n100;
          n4 = y2 div 4; y3 = y2 - 4 * n4; d3 = d2 + 1461 * n4
      in d3 + 365 * y3)"

definition norm :: "int \<Rightarrow> int \<Rightarrow> int \<Rightarrow> int \<times> int" where
  "norm hi lo base =
     (let (hi1, lo1) =
        (if lo < 0 then (let n = (- lo - 1) div base + 1 in (hi - n, lo + n * base))
         else (hi, lo))
      in if lo1 \<ge> base then (let n = lo1 div base in (hi1 + n, lo1 - n * base))
         else (hi1, lo1))"

definition Date :: "int \<Rightarrow> int \<Rightarrow> int \<Rightarrow> int \<Rightarrow> Time" where
  "Date year month day nsod =
     (let (y, m) = norm year (month - 1) 12;
          d = daysSinceEpoch y + daysBefore ! nat m
              + (if isLeap y \<and> m + 1 \<ge> 3 then 1 else 0) + (day - 1)
      in \<lparr>abs_day = d, nsec_of_day = nsod\<rparr>)"

text \<open>
  \<open>absDate\<close>: the year and the day of the year of a day number (all that Go computes
  when \<open>full\<close> is false), then the month and the day of the month.
\<close>

definition absYear :: "int \<Rightarrow> int \<times> int" where
  "absYear d0 =
     (let n400 = d0 div 146097; d1 = d0 - 146097 * n400;
          q100 = d1 div 36524; n100 = q100 - q100 div 4; d2 = d1 - 36524 * n100;
          n4 = d2 div 1461; d3 = d2 - 1461 * n4;
          q1 = d3 div 365; n1 = q1 - q1 div 4; yday = d3 - 365 * n1
      in (400 * n400 + 100 * n100 + 4 * n4 + n1 + 1, yday))"

definition monthDay :: "bool \<Rightarrow> int \<Rightarrow> int \<times> int" where
  "monthDay leap yday =
     (if leap \<and> yday = 31 + 29 - 1 then (2, 29)
      else
        (let day = (if leap \<and> yday > 31 + 29 - 1 then yday - 1 else yday);
             month = day div 31;
             e = daysBefore ! nat (month + 1);
             (month1, begin_day) =
               (if day \<ge> e then (month + 1, e) else (month, daysBefore ! nat month))
         in (month1 + 1, day - begin_day + 1)))"

definition absDate :: "int \<Rightarrow> int \<times> int \<times> int \<times> int" where
  "absDate d0 =
     (let (year, yday) = absYear d0;
          (month, day) = monthDay (isLeap year) yday
      in (year, month, day, yday))"

definition AddDate :: "Time \<Rightarrow> int \<Rightarrow> int \<Rightarrow> int \<Rightarrow> Time" where
  "AddDate t years months days =
     (let (year, month, day, yday) = absDate (abs_day t)
      in Date (year + years) (month + months) (day + days) (nsec_of_day t))"

subsection \<open>Certificates, keys and the library functions taken as parameters\<close>

datatype ext_key_usage = ExtKeyUsageAny | ExtKeyUsageServerAuth | ExtKeyUsageClientAuth

text \<open>\<open>x509.KeyUsage\<close> is a bit mask: \<open>1 << iota\<close>.\<close>

definition KeyUsageDigitalSignature :: int where "KeyUsageDigitalSignature = 1"
definition KeyUsageContentCommitment :: int where "KeyUsageContentCommitment = 2"
definition KeyUsageKeyEncipherment :: int where "KeyUsageKeyEncipherment = 4"
definition KeyUsageDataEncipherment :: int where "KeyUsageDataEncipherment = 8"

record pkix_Name =
  CommonName :: string

text \<open>The fields of \<open>x509.Certificate\<close> that the package sets; \<open>net.IP\<close> is a byte slice.\<close>

record x509_Certificate =
  SerialNumber :: int
  Subject :: pkix_Name
  NotBefore :: Time
  NotAfter :: Time
  BasicConstraintsValid :: bool
  ExtKeyUsage :: "ext_key_usage list"
  KeyUsage :: int
  IPAddresses :: "bytes list"
  DNSNames :: "string list"

record pem_Block =
  block_Type :: string
  block_Bytes :: bytes

text \<open>
  The library functions that are not written out. \<open>'k\<close> is an RSA private key (with its
  public half), \<open>'r\<close> the state of \<open>crypto/rand.Reader\<close>, \<open>'cert\<close> a
  \<open>tls.Certificate\<close>. A function that reads random bytes returns the reader's new state.
  \<open>net.ParseIP\<close> and \<open>pem.Decode\<close> return \<open>None\<close> for Go's \<open>nil\<close>.
\<close>

record ('k, 'r, 'cert) stdlib =
  net_ParseIP :: "string \<Rightarrow> bytes option"
  rsa_GenerateKey :: "'r \<Rightarrow> nat \<Rightarrow> (error + 'k) \<times> 'r"
  x509_CreateCertificate ::
    "'r \<Rightarrow> x509_Certificate \<Rightarrow> x509_Certificate \<Rightarrow> 'k \<Rightarrow> 'k \<Rightarrow> (error + bytes) \<times> 'r"
  x509_MarshalPKCS1PrivateKey :: "'k \<Rightarrow> bytes"
  pem_EncodeToMemory :: "pem_Block \<Rightarrow> bytes"
  pem_Decode :: "bytes \<Rightarrow> pem_Block option"
  x509_ParseCertificate :: "bytes \<Rightarrow> error + x509_Certificate"
  x509_ParsePKCS1PrivateKey :: "bytes \<Rightarrow> error + 'k"
  tls_X509KeyPair :: "bytes \<Rightarrow> bytes \<Rightarrow> error + 'cert"

subsection \<open>The root trust anchor: init, loadRootCA, loadRootKey\<close>

text \<open>
  The two embedded PEM texts (\<open>rootCAPem\<close>, \<open>rootKeyPem\<close>) are parameters, so that a
  corrupted text can be talked about. The package variables \<open>rootCA\<close> and \<open>rootKey\<close>
  that \<open>init\<close> assigns are the record it returns.
\<close>

record embedded =
  rootCAPem :: bytes
  rootKeyPem :: bytes

record 'k anchor =
  rootCA :: x509_Certificate
  rootKey :: 'k

datatype panic = NilPointerDereference | PanicError string

text \<open>\<open>err.Error()\<close>, as far as the model tells errors apart.\<close>

fun Error_text :: "error \<Rightarrow> string" where
  "Error_text (LibError s) = s"
| "Error_text (AddrError why addr) = ''address '' @ addr"

text \<open>
  \<open>pem.Decode\<close> returns a nil block when it finds no PEM data, and \<open>block.Bytes\<close>
  then panics; otherwise the parser's result is returned as it is.
\<close>

definition loadRootCA ::
  "('k, 'r, 'cert) stdlib \<Rightarrow> embedded \<Rightarrow> panic + (error + x509_Certificate)" where
  "loadRootCA L E =
     (case pem_Decode L (rootCAPem E) of
        None \<Rightarrow> Inl NilPointerDereference
      | Some block \<Rightarrow> Inr (x509_ParseCertificate L (block_Bytes block)))"

definition loadRootKey :: "('k, 'r, 'cert) stdlib \<Rightarrow> embedded \<Rightarrow> panic + (error + 'k)" where
  "loadRootKey L E =
     (case pem_Decode L (rootKeyPem E) of
        None \<Rightarrow> Inl NilPointerDereference
      | Some block \<Rightarrow> Inr (x509_ParsePKCS1PrivateKey L (block_Bytes block)))"

definition init :: "('k, 'r, 'cert) stdlib \<Rightarrow> embedded \<Rightarrow> panic + 'k anchor" where
  "init L E =
     (case loadRootCA L E of
        Inl p \<Rightarrow> Inl p
      | Inr (Inl err) \<Rightarrow> Inl (PanicError (''Load root ca failed: '' @ Error_text err))
      | Inr (Inr ca) \<Rightarrow>
          (case loadRootKey L E of
             Inl p \<Rightarrow> Inl p
           | Inr (Inl err) \<Rightarrow> Inl (PanicError (''Load root key failed: '' @ Error_text err))
           | Inr (Inr key) \<Rightarrow> Inr \<lparr>rootCA = ca, rootKey = key\<rparr>))"

text \<open>
  A Go process runs the \<open>init\<close> functions of its packages before \<open>main\<close>; a panic in
  one of them ends the process. \<open>main\<close> stands for everything the program does after
  initialisation (starting the listener, forging certificates): it gets the anchor.
\<close>

datatype 'a outcome = Aborted panic | Ran 'a

definition start_process ::
  "('k, 'r, 'cert) stdlib \<Rightarrow> embedded \<Rightarrow> ('k anchor \<Rightarrow> 'a) \<Rightarrow> 'a outcome" where
  "start_process L E main =
     (case init L E of Inl p \<Rightarrow> Aborted p | Inr G \<Rightarrow> Ran (main G))"

subsection \<open>The state around the certificate authority\<close>

text \<open>
  The \<open>Cache\<close> interface is declared elsewhere in the repository; its two methods are
  parameters, acting on the state \<open>'c\<close> of the cache object. \<open>Get\<close> returns \<open>None\<close>
  for a nil pointer.
\<close>

record ('c, 'cert) Cache =
  cache_Get :: "'c \<Rightarrow> string \<Rightarrow> 'cert option"
  cache_Set :: "'c \<Rightarrow> string \<Rightarrow> 'cert \<Rightarrow> 'c"

record ('c, 'cert) Certificate =
  cache :: "('c, 'cert) Cache option"

definition NewCertificate :: "('c, 'cert) Cache option \<Rightarrow> ('c, 'cert) Certificate" where
  "NewCertificate ch = \<lparr>cache = ch\<rparr>"

text \<open>
  What the functions read and change: the random reader, the clock (the readings that
  successive calls of \<open>time.Now\<close> return), and the state of the cache object. \<open>calls\<close>
  is a log of the calls made to the cache and to the forge, in order; it is how a
  statement can say which calls a function makes.
\<close>

datatype call = Cache_Get string | Cache_Set string | Generate_Pem string

record ('r, 'c) world =
  rand :: 'r
  clock :: "Time stream"
  store :: 'c
  calls :: "call list"

definition time_Now :: "('r, 'c) world \<Rightarrow> Time \<times> ('r, 'c) world" where
  "time_Now w = (shd (clock w), w\<lparr>clock := stl (clock w)\<rparr>)"

record 'cert tls_Config =
  Certificates :: "'cert list"

subsection \<open>template, GeneratePem, GenerateTLSConfig\<close>

text \<open>
  \<open>template\<close>: the serial number is the hex text of the MD5 digest of the host, read in
  base 16 (the result of \<open>SetString\<close> is not looked at: were the text not a number,
  \<open>bi\<close> would stay the \<open>big.NewInt(0)\<close> it was made as). \<open>time.Now\<close> is called twice.
  The receiver is not used, here and in \<open>GeneratePem\<close>.
\<close>

definition template ::
  "('k, 'r, 'cert) stdlib \<Rightarrow> string \<Rightarrow> ('r, 'c) world \<Rightarrow> x509_Certificate \<times> ('r, 'c) world" where
  "template L host w =
     (let hexstr = EncodeToString (md5_Sum (bytes_of host));
          bi = (case SetString hexstr 16 of Some v \<Rightarrow> v | None \<Rightarrow> 0);
          (t1, w1) = time_Now w;
          (t2, w2) = time_Now w1;
          cert = \<lparr>SerialNumber = bi,
                  Subject = \<lparr>CommonName = host\<rparr>,
                  NotBefore = AddDate t1 (-1) 0 0,
                  NotAfter = AddDate t2 10 0 0,
                  BasicConstraintsValid = True,
                  ExtKeyUsage = [ExtKeyUsageClientAuth, ExtKeyUsageServerAuth],
                  KeyUsage = KeyUsageDigitalSignature OR KeyUsageDataEncipherment
                             OR KeyUsageKeyEncipherment,
                  IPAddresses = [],
                  DNSNames = []\<rparr>
      in (case net_ParseIP L host of
            Some ip \<Rightarrow> cert\<lparr>IPAddresses := [ip]\<rparr>
          | None \<Rightarrow> cert\<lparr>DNSNames := [host]\<rparr>,
          w2))"

definition GeneratePem ::
  "('k, 'r, 'cert) stdlib \<Rightarrow> 'k anchor \<Rightarrow> string \<Rightarrow> ('r, 'c) world
     \<Rightarrow> (error + bytes \<times> bytes) \<times> ('r, 'c) world" where
  "GeneratePem L G host w =
     (let w0 = w\<lparr>calls := calls w @ [Generate_Pem host]\<rparr> in
      case rsa_GenerateKey L (rand w0) 2048 of
        (Inl err, r1) \<Rightarrow> (Inl err, w0\<lparr>rand := r1\<rparr>)
      | (Inr priv, r1) \<Rightarrow>
          (let (tmpl, w1) = template L host (w0\<lparr>rand := r1\<rparr>) in
           case x509_CreateCertificate L (rand w1) tmpl (rootCA G) priv (rootKey G) of
             (Inl err, r2) \<Rightarrow> (Inl err, w1\<lparr>rand := r2\<rparr>)
           | (Inr derBytes, r2) \<Rightarrow>
               (let serverCert = pem_EncodeToMemory L
                      \<lparr>block_Type = ''CERTIFICATE'', block_Bytes = derBytes\<rparr>;
                    serverKey = pem_EncodeToMemory L
                      \<lparr>block_Type = ''RSA PRIVATE KEY'',
                       block_Bytes = x509_MarshalPKCS1PrivateKey L priv\<rparr>
                in (Inr (serverCert, serverKey), w1\<lparr>rand := r2\<rparr>))))"

definition GenerateTLSConfig ::
  "('k, 'r, 'cert) stdlib \<Rightarrow> 'k anchor \<Rightarrow> ('c, 'cert) Certificate \<Rightarrow> string \<Rightarrow> ('r, 'c) world
     \<Rightarrow> (error + 'cert tls_Config) \<times> ('r, 'c) world" where
  "GenerateTLSConfig L G c host0 w =
     (let host = (case SplitHostPort host0 of Inr (h, _) \<Rightarrow> h | Inl _ \<Rightarrow> host0);
          (found, w1) =
            (case cache c of
               None \<Rightarrow> (None, w)
             | Some ch \<Rightarrow>
                 (cache_Get ch (store w) host, w\<lparr>calls := calls w @ [Cache_Get host]\<rparr>))
      in
      case found of
        Some cert \<Rightarrow> (Inr \<lparr>Certificates = [cert]\<rparr>, w1)
      | None \<Rightarrow>
          (case GeneratePem L G host w1 of
             (Inl err, w2) \<Rightarrow> (Inl err, w2)
           | (Inr (serverCert, serverKey), w2) \<Rightarrow>
               (case tls_X509KeyPair L serverCert serverKey of
                  Inl err \<Rightarrow> (Inl err, w2)
                | Inr cert \<Rightarrow>
                    (Inr \<lparr>Certificates = [cert]\<rparr>,
                     case cache c of
                       None \<Rightarrow> w2
                     | Some ch \<Rightarrow>
                         w2\<lparr>store := cache_Set ch (store w2) host cert,
                            calls := calls w2 @ [Cache_Set host]\<rparr>))))"

text \<open>
  The host that \<open>GenerateTLSConfig\<close> works with after its first statement: the host part
  when \<open>net.SplitHostPort\<close> succeeds, the input as it is otherwise.
\<close>

definition bare_host :: "string \<Rightarrow> string" where
  "bare_host host0 = (case SplitHostPort host0 of Inr (h, _) \<Rightarrow> h | Inl _ \<Rightarrow> host0)"

subsection \<open>A small instance of the parameters, for evaluating the functions\<close>

text \<open>
  A key is a number drawn from a counter that stands for the random reader; a DER
  certificate and a PEM text are short byte lists; a \<open>tls.Certificate\<close> is the pair of
  PEM texts; the cache is a map.
\<close>

definition test_lib :: "(nat, nat, bytes \<times> bytes) stdlib" where
  "test_lib =
     \<lparr>net_ParseIP = (\<lambda>s. if s = ''127.0.0.1'' then Some [127, 0, 0, 1] else None),
      rsa_GenerateKey = (\<lambda>r bits. (Inr r, Suc r)),
      x509_CreateCertificate = (\<lambda>r tmpl parent pub priv. (Inr [of_nat pub, of_nat priv], Suc r)),
      x509_MarshalPKCS1PrivateKey = (\<lambda>k. replicate k 1),
      pem_EncodeToMemory = (\<lambda>b. block_Bytes b),
      pem_Decode = (\<lambda>b. if b = [] then None else Some \<lparr>block_Type = [], block_Bytes = b\<rparr>),
      x509_ParseCertificate = (\<lambda>b. Inl (LibError ''malformed certificate'')),
      x509_ParsePKCS1PrivateKey = (\<lambda>b. Inr (length b)),
      tls_X509KeyPair = (\<lambda>c k. Inr (c, k))\<rparr>"

definition test_cache :: "(string \<Rightarrow> (bytes \<times> bytes) option, bytes \<times> bytes) Cache" where
  "test_cache = \<lparr>cache_Get = (\<lambda>m k. m k), cache_Set = (\<lambda>m k v. m(k := Some v))\<rparr>"

definition test_time :: Time where
  "test_time = \<lparr>abs_day = 738944, nsec_of_day = 43200000000000\<rparr>"

definition test_world :: "(nat, string \<Rightarrow> (bytes \<times> bytes) option) world" where
  "test_world = \<lparr>rand = 7, clock = sconst test_time, store = (\<lambda>k. None), calls = []\<rparr>"

definition test_anchor :: "nat anchor" where
  "test_anchor =
     \<lparr>rootCA = \<lparr>SerialNumber = 1, Subject = \<lparr>CommonName = ''go-mitm-proxy''\<rparr>,
                NotBefore = test_time, NotAfter = test_time, BasicConstraintsValid = True,
                ExtKeyUsage = [], KeyUsage = 6, IPAddresses = [], DNSNames = []\<rparr>,
      rootKey = 1\<rparr>"

text \<open>The same library with a random reader that fails, and with a parser that succeeds.\<close>

definition no_entropy_lib :: "(nat, nat, bytes \<times> bytes) stdlib" where
  "no_entropy_lib = test_lib\<lparr>rsa_GenerateKey := (\<lambda>r bits. (Inl (LibError ''no entropy''), r))\<rparr>"

definition parsing_lib :: "(nat, nat, bytes \<times> bytes) stdlib" where
  "parsing_lib = test_lib\<lparr>x509_ParseCertificate := (\<lambda>b. Inr (rootCA test_anchor))\<rparr>"

definition test_embedded :: embedded where
  "test_embedded = \<lparr>rootCAPem = [45, 45], rootKeyPem = [45, 45, 45]\<rparr>"

subsection \<open>Notions used in the statements\<close>

text \<open>The number that a byte string is in big-endian order, from an accumulator.\<close>

fun be_acc :: "nat \<Rightarrow> bytes \<Rightarrow> nat" where
  "be_acc a [] = a"
| "be_acc a (b # bs) = be_acc (a * 256 + unat b) bs"

definition big_endian :: "bytes \<Rightarrow> nat" where
  "big_endian bs = be_acc 0 bs"

text \<open>A logged call is a call of the forge.\<close>

fun is_forge :: "call \<Rightarrow> bool" where
  "is_forge (Generate_Pem h) = True"
| "is_forge (Cache_Get k) = False"
| "is_forge (Cache_Set k) = False"

section \<open>Properties\<close>

subsection \<open>What the functions do to the state\<close>




lemma GeneratePem_effect:
  assumes "GeneratePem L G h w = (r, w')"
  shows "store w' = store w \<and> calls w' = calls w @ [Generate_Pem h]"
  using assms
  by (auto simp: GeneratePem_def Let_def template_def time_Now_def
           split: prod.splits sum.splits option.splits)

lemma GenerateTLSConfig_no_cache:
  assumes "cache c = None" "GenerateTLSConfig L G c host w = (res, w')"
  shows "store w' = store w \<and> calls w' = calls w @ [Generate_Pem (bare_host host)]"
  using assms
  by (auto simp: GenerateTLSConfig_def bare_host_def Let_def
           dest!: GeneratePem_effect split: prod.splits sum.splits option.splits)

lemma GenerateTLSConfig_hit:
  assumes "cache c = Some ch" "cache_Get ch (store w) (bare_host host) = Some cert"
  shows "GenerateTLSConfig L G c host w =
           (Inr \<lparr>Certificates = [cert]\<rparr>, w\<lparr>calls := calls w @ [Cache_Get (bare_host host)]\<rparr>)"
  using assms by (simp add: GenerateTLSConfig_def bare_host_def Let_def)

lemma GenerateTLSConfig_miss:
  assumes "cache c = Some ch" "cache_Get ch (store w) (bare_host host) = None"
      and "GenerateTLSConfig L G c host w = (res, w')"
  shows "(case res of
            Inl err \<Rightarrow> store w' = store w \<and>
              calls w' = calls w @ [Cache_Get (bare_host host), Generate_Pem (bare_host host)]
          | Inr conf \<Rightarrow> (\<exists>cert. conf = \<lparr>Certificates = [cert]\<rparr> \<and>
              store w' = cache_Set ch (store w) (bare_host host) cert \<and>
              calls w' = calls w @ [Cache_Get (bare_host host), Generate_Pem (bare_host host),
                                    Cache_Set (bare_host host)]))"
  using assms
  by (auto simp: GenerateTLSConfig_def bare_host_def Let_def
           dest!: GeneratePem_effect split: prod.splits sum.splits option.splits)

subsection \<open>net.SplitHostPort on well-formed input\<close>

lemma IndexByte_absent: "c \<notin> set s \<Longrightarrow> IndexByte s c = -1"
  by (induction s) (auto simp: Let_def)

lemma IndexByte_first: "c \<notin> set xs \<Longrightarrow> IndexByte (xs @ c # ys) c = int (length xs)"
  by (induction xs) (auto simp: Let_def)

lemma LastIndexByte_last:
  "c \<notin> set ys \<Longrightarrow> LastIndexByte (xs @ c # ys) c = int (length xs)"
  using IndexByte_first [of c "rev ys" "rev xs"]
  by (simp add: LastIndexByte_def Let_def)


lemma SplitHostPort_plain:
  assumes "CHR '':'' \<notin> set h" "CHR ''['' \<notin> set h" "CHR '']'' \<notin> set h"
      and "CHR '':'' \<notin> set p" "CHR ''['' \<notin> set p" "CHR '']'' \<notin> set p"
  shows "SplitHostPort (h @ CHR '':'' # p) = Inr (h, p)"
proof -
  have i: "LastIndexByte (h @ CHR '':'' # p) (CHR '':'') = int (length h)"
    using assms by (simp add: LastIndexByte_last)
  have hd: "\<not> ((h @ CHR '':'' # p) \<noteq> [] \<and> hd (h @ CHR '':'' # p) = CHR ''['')"
    using assms by (cases h) auto
  have a: "IndexByte (h @ CHR '':'' # p) (CHR ''['') = -1"
          "IndexByte (h @ CHR '':'' # p) (CHR '']'') = -1"
          "IndexByte h (CHR '':'') = -1"
    using assms by (simp_all add: IndexByte_absent)
  have n: "nat (int (length h) + 1) = Suc (length h)" by simp
  show ?thesis
    unfolding SplitHostPort_def Let_def i n using hd a
    by (simp add: slice_def)
qed



lemma SplitHostPort_example: "SplitHostPort ''example.com:8443'' = Inr (''example.com'', ''8443'')"
  using SplitHostPort_plain [of "''example.com''" "''8443''"] by simp

lemma bare_host_example: "bare_host ''example.com:8443'' = ''example.com''"
  by (simp add: bare_host_def SplitHostPort_example)

subsection \<open>The subject alternative name\<close>

text \<open>
  Claim C6. For every host \<open>h\<close> the template carries exactly one subject alternative
  name: when \<open>net.ParseIP\<close> reads \<open>h\<close> as an address, \<open>IPAddresses\<close> is that one address
  and \<open>DNSNames\<close> is empty; otherwise \<open>DNSNames\<close> is \<open>h\<close> alone and \<open>IPAddresses\<close> is
  empty.
\<close>

theorem template_subject_alternative_name:
  "(case net_ParseIP L h of
      Some ip \<Rightarrow>
        IPAddresses (fst (template L h w)) = [ip] \<and> DNSNames (fst (template L h w)) = []
    | None \<Rightarrow>
        DNSNames (fst (template L h w)) = [h] \<and> IPAddresses (fst (template L h w)) = [])"
  by (simp add: template_def time_Now_def Let_def split: option.split)

subsection \<open>The serial number\<close>

lemma nib_hi: "unat (drop_bit 4 (v::8 word)) = unat v div 16"
  by (simp add: drop_bit_eq_div unat_div)

lemma nib_lo: "unat ((v::8 word) AND 0x0f) = unat v mod 16"
proof -
  have "(0x0f :: 8 word) = mask 4" by (simp add: mask_eq_exp_minus_1)
  then have "v AND 0x0f = take_bit 4 v" by (simp add: take_bit_eq_mask)
  then show ?thesis by (simp add: unsigned_take_bit_eq take_bit_eq_mod unat_mod)
qed

lemma mem16:
  "(n::nat) < 16 \<Longrightarrow> n \<in> {0, 1, 2, 3, 4, 5, 6, 7, 8, 9, 10, 11, 12, 13, 14, 15}"
  by (simp; arith)

lemma digit_val_hextable: "n < 16 \<Longrightarrow> digit_val (hextable ! n) = Some n"
  by (drule mem16) (auto simp: hextable_def digit_val_def)

lemma hex_not_sign: "n < 16 \<Longrightarrow> hextable ! n \<noteq> CHR ''-'' \<and> hextable ! n \<noteq> CHR ''+''"
  by (drule mem16) (auto simp: hextable_def)

lemma scan_hex: "scan_digits 16 acc (EncodeToString bs) = Some (be_acc acc bs)"
proof (induction bs arbitrary: acc)
  case Nil
  then show ?case by simp
next
  case (Cons b bs)
  have "unat b < 2 ^ LENGTH(8)" by (rule unsigned_less)
  then have hi: "unat (drop_bit 4 b) < 16" by (simp add: nib_hi)
  have lo: "unat (b AND 0x0f) < 16" by (simp add: nib_lo)
  have v: "256 * acc + unat (drop_bit 4 b) * 16 + unat (b AND 0x0f) = acc * 256 + unat b"
    unfolding nib_hi nib_lo by presburger
  show ?case
    using hi lo by (simp add: digit_val_hextable Cons.IH v)
qed



lemma md5_Sum_length: "length (md5_Sum m) = 16"
  by (simp add: md5_Sum_def Let_def put_le32_def split: prod.split)

lemma SetString_hex:
  assumes "bs \<noteq> []"
  shows "SetString (EncodeToString bs) 16 = Some (int (big_endian bs))"
proof -
  obtain b rest where bs: "bs = b # rest" using assms by (cases bs) auto
  have "unat b < 2 ^ LENGTH(8)" by (rule unsigned_less)
  then have hi: "unat (drop_bit 4 b) < 16" by (simp add: nib_hi)
  from hex_not_sign [OF hi] scan_hex [of 0 bs] show ?thesis
    by (simp add: SetString_def big_endian_def bs)
qed

lemma SetString_md5:
  "SetString (EncodeToString (md5_Sum m)) 16 = Some (int (big_endian (md5_Sum m)))"
proof -
  have "md5_Sum m \<noteq> []" using md5_Sum_length [of m] by auto
  then show ?thesis by (rule SetString_hex)
qed

lemma template_SerialNumber:
  "SerialNumber (fst (template L h w)) = int (big_endian (md5_Sum (bytes_of h)))"
  by (simp add: template_def time_Now_def Let_def SetString_md5 split: option.split)


text \<open>The digest of a known input, and the serial number it gives.\<close>

lemma md5_Sum_example:
  "md5_Sum (bytes_of ''example.com'') =
     [0x5a, 0xba, 0xbd, 0x60, 0x3b, 0x22, 0x78, 0x03, 0x02, 0xdd, 0x8d, 0x83, 0x49, 0x8e, 0x51, 0x72]"
  by code_simp

lemma SerialNumber_example:
  "SerialNumber (fst (template L ''example.com'' w)) = 0x5ababd603b22780302dd8d83498e5172"
  by (simp add: template_SerialNumber md5_Sum_example big_endian_def)





subsection \<open>The cache\<close>

lemma test_first_call:
  "\<exists>conf w1. GenerateTLSConfig test_lib test_anchor \<lparr>cache = Some test_cache\<rparr>
       ''example.com:8443'' test_world = (Inr conf, w1)"
  by (simp add: GenerateTLSConfig_def GeneratePem_def template_def time_Now_def Let_def
        SplitHostPort_example test_lib_def test_cache_def test_world_def split: option.split)

lemma test_failing_call:
  "\<exists>w1. GenerateTLSConfig no_entropy_lib test_anchor \<lparr>cache = Some test_cache\<rparr>
       ''example.com:8443'' test_world = (Inl (LibError ''no entropy''), w1)"
  by (simp add: GenerateTLSConfig_def GeneratePem_def Let_def SplitHostPort_example
        no_entropy_lib_def test_lib_def test_cache_def test_world_def)

text \<open>
  Claim C1. With a cache whose \<open>Get\<close> returns what \<open>Set\<close> stored, and a host that is
  not cached yet: when a first call of \<open>GenerateTLSConfig\<close> returns a configuration, it
  has asked the cache, called the forge once and stored the certificate; a second call
  for the same host then returns the same configuration (the same certificate, so the
  same key material), asks the cache only, and leaves the cache and the random reader
  as they were. Over both calls the forge is called exactly once.
\<close>

theorem second_call_is_served_from_cache:
  assumes c: "cache c = Some ch"
      and ryw: "\<forall>s k v. cache_Get ch (cache_Set ch s k v) k = Some v"
      and miss: "cache_Get ch (store w) (bare_host host) = None"
      and first: "GenerateTLSConfig L G c host w = (Inr conf, w1)"
  shows "\<exists>w2. GenerateTLSConfig L G c host w1 = (Inr conf, w2)
          \<and> calls w1 = calls w @ [Cache_Get (bare_host host), Generate_Pem (bare_host host),
                                   Cache_Set (bare_host host)]
          \<and> calls w2 = calls w1 @ [Cache_Get (bare_host host)]
          \<and> length (filter is_forge (drop (length (calls w)) (calls w2))) = 1
          \<and> store w2 = store w1 \<and> rand w2 = rand w1"
proof -
  from GenerateTLSConfig_miss [OF c miss first]
  obtain cert where conf: "conf = \<lparr>Certificates = [cert]\<rparr>"
    and st: "store w1 = cache_Set ch (store w) (bare_host host) cert"
    and cl: "calls w1 = calls w @ [Cache_Get (bare_host host), Generate_Pem (bare_host host),
                                   Cache_Set (bare_host host)]"
    by auto
  have "cache_Get ch (store w1) (bare_host host) = Some cert"
    using ryw st by simp
  from GenerateTLSConfig_hit [OF c this, of L G] conf cl show ?thesis by simp
qed

theorem second_call_is_served_from_cache_witness:
  "\<exists>conf w1 w2.
     GenerateTLSConfig test_lib test_anchor \<lparr>cache = Some test_cache\<rparr> ''example.com:8443''
        test_world = (Inr conf, w1)
     \<and> GenerateTLSConfig test_lib test_anchor \<lparr>cache = Some test_cache\<rparr> ''example.com:8443''
        w1 = (Inr conf, w2)
     \<and> calls w2 = [Cache_Get ''example.com'', Generate_Pem ''example.com'',
                   Cache_Set ''example.com'', Cache_Get ''example.com'']"
proof -
  obtain conf w1 where first:
    "GenerateTLSConfig test_lib test_anchor \<lparr>cache = Some test_cache\<rparr> ''example.com:8443''
       test_world = (Inr conf, w1)"
    using test_first_call by blast
  have c: "cache \<lparr>cache = Some test_cache\<rparr> = Some test_cache" by simp
  have ryw: "\<forall>s k v. cache_Get test_cache (cache_Set test_cache s k v) k = Some v"
    by (simp add: test_cache_def)
  have miss: "cache_Get test_cache (store test_world) (bare_host ''example.com:8443'') = None"
    by (simp add: test_cache_def test_world_def)
  from second_call_is_served_from_cache [OF c ryw miss first] first
  show ?thesis by (auto simp: bare_host_example test_world_def)
qed

text \<open>
  Claim C10. \<open>GenerateTLSConfig\<close> writes the cache only when it has built a fresh
  certificate. On a cache hit, and whenever it returns an error (from the forge or from
  \<open>tls.X509KeyPair\<close>), the state of the cache is the one before the call and \<open>Set\<close> is
  not among the calls made. If the state of the cache has changed or \<open>Set\<close> was called,
  then there is a cache, the host was not in it, the call returned a configuration, and
  the new state is the old one after \<open>Set\<close> of that certificate under the bare host.
\<close>

theorem cache_written_only_on_success:
  assumes run: "GenerateTLSConfig L G c host w = (res, w')"
  shows "\<exists>cs. calls w' = calls w @ cs
          \<and> ((\<exists>ch cert. cache c = Some ch
                  \<and> cache_Get ch (store w) (bare_host host) = Some cert)
               \<or> (\<exists>err. res = Inl err)
              \<longrightarrow> store w' = store w \<and> (\<forall>k. Cache_Set k \<notin> set cs))
          \<and> (store w' \<noteq> store w \<or> (\<exists>k. Cache_Set k \<in> set cs)
              \<longrightarrow> (\<exists>ch cert. cache c = Some ch
                    \<and> cache_Get ch (store w) (bare_host host) = None
                    \<and> res = Inr \<lparr>Certificates = [cert]\<rparr>
                    \<and> store w' = cache_Set ch (store w) (bare_host host) cert
                    \<and> cs = [Cache_Get (bare_host host), Generate_Pem (bare_host host),
                            Cache_Set (bare_host host)]))"
proof (cases "cache c")
  case None
  from GenerateTLSConfig_no_cache [OF None run] show ?thesis using None by auto
next
  case (Some ch)
  show ?thesis
  proof (cases "cache_Get ch (store w) (bare_host host)")
    case (Some cert)
    from GenerateTLSConfig_hit [OF \<open>cache c = Some ch\<close> Some, of L G] run
    show ?thesis using \<open>cache c = Some ch\<close> Some by auto
  next
    case None
    from GenerateTLSConfig_miss [OF \<open>cache c = Some ch\<close> None run]
    show ?thesis using \<open>cache c = Some ch\<close> None by (cases res) auto
  qed
qed

theorem cache_written_only_on_success_witness:
  "\<exists>w1. GenerateTLSConfig no_entropy_lib test_anchor \<lparr>cache = Some test_cache\<rparr>
       ''example.com:8443'' test_world = (Inl (LibError ''no entropy''), w1)
     \<and> store w1 = store test_world \<and> (\<forall>k. Cache_Set k \<notin> set (calls w1))"
proof -
  obtain w1 where run:
    "GenerateTLSConfig no_entropy_lib test_anchor \<lparr>cache = Some test_cache\<rparr>
       ''example.com:8443'' test_world = (Inl (LibError ''no entropy''), w1)"
    using test_failing_call by blast
  from cache_written_only_on_success [OF run] run show ?thesis
    by (auto simp: test_world_def)
qed

subsection \<open>The bare host\<close>




subsection \<open>The root trust anchor\<close>

text \<open>
  Claim C9. If the embedded root certificate or the embedded root key cannot be loaded,
  \<open>init\<close> panics: with a nil pointer dereference when \<open>pem.Decode\<close> finds no block, with
  the wrapped error when the parser fails. The process then ends before \<open>main\<close>, that is
  before any listener is started and before any certificate is forged, whatever \<open>main\<close>
  is. If both load, \<open>init\<close> returns the anchor and \<open>main\<close> runs with it.
\<close>

theorem init_aborts_unless_both_load:
  "(pem_Decode L (rootCAPem E) = None \<longrightarrow> init L E = Inl NilPointerDereference)
   \<and> (\<forall>b err. pem_Decode L (rootCAPem E) = Some b
         \<and> x509_ParseCertificate L (block_Bytes b) = Inl err
       \<longrightarrow> init L E = Inl (PanicError (''Load root ca failed: '' @ Error_text err)))
   \<and> (\<forall>b ca. pem_Decode L (rootCAPem E) = Some b
         \<and> x509_ParseCertificate L (block_Bytes b) = Inr ca
         \<and> pem_Decode L (rootKeyPem E) = None
       \<longrightarrow> init L E = Inl NilPointerDereference)
   \<and> (\<forall>b ca b' err. pem_Decode L (rootCAPem E) = Some b
         \<and> x509_ParseCertificate L (block_Bytes b) = Inr ca
         \<and> pem_Decode L (rootKeyPem E) = Some b'
         \<and> x509_ParsePKCS1PrivateKey L (block_Bytes b') = Inl err
       \<longrightarrow> init L E = Inl (PanicError (''Load root key failed: '' @ Error_text err)))
   \<and> (\<forall>b ca b' key. pem_Decode L (rootCAPem E) = Some b
         \<and> x509_ParseCertificate L (block_Bytes b) = Inr ca
         \<and> pem_Decode L (rootKeyPem E) = Some b'
         \<and> x509_ParsePKCS1PrivateKey L (block_Bytes b') = Inr key
       \<longrightarrow> init L E = Inr \<lparr>rootCA = ca, rootKey = key\<rparr>)
   \<and> ((\<forall>ca. loadRootCA L E \<noteq> Inr (Inr ca)) \<or> (\<forall>key. loadRootKey L E \<noteq> Inr (Inr key))
       \<longrightarrow> (\<exists>p. init L E = Inl p \<and> (\<forall>main. start_process L E main = Aborted p)))
   \<and> (\<forall>ca key. loadRootCA L E = Inr (Inr ca) \<and> loadRootKey L E = Inr (Inr key)
       \<longrightarrow> (\<forall>main. start_process L E main = Ran (main \<lparr>rootCA = ca, rootKey = key\<rparr>)))"
  by (auto simp: init_def loadRootCA_def loadRootKey_def start_process_def
           split: option.splits sum.splits)

theorem init_aborts_unless_both_load_witness:
  "init test_lib test_embedded = Inl (PanicError ''Load root ca failed: malformed certificate'')
   \<and> start_process test_lib test_embedded (\<lambda>G. GeneratePem test_lib G ''example.com'' test_world)
       = Aborted (PanicError ''Load root ca failed: malformed certificate'')
   \<and> init test_lib (test_embedded\<lparr>rootCAPem := []\<rparr>) = Inl NilPointerDereference
   \<and> init parsing_lib test_embedded = Inr \<lparr>rootCA = rootCA test_anchor, rootKey = 3\<rparr>
   \<and> start_process parsing_lib test_embedded (\<lambda>G. rootKey G) = Ran 3"
proof -
  note t = init_aborts_unless_both_load
  have a: "init test_lib test_embedded
             = Inl (PanicError ''Load root ca failed: malformed certificate'')"
    using t [of test_lib test_embedded, THEN conjunct2, THEN conjunct1, rule_format,
             of "\<lparr>block_Type = [], block_Bytes = [45, 45]\<rparr>"
                "LibError ''malformed certificate''"]
    by (simp add: test_lib_def test_embedded_def)
  have "\<forall>ca. loadRootCA test_lib test_embedded \<noteq> Inr (Inr ca)"
    by (simp add: loadRootCA_def test_lib_def test_embedded_def)
  with t [of test_lib test_embedded, THEN conjunct2, THEN conjunct2, THEN conjunct2,
          THEN conjunct2, THEN conjunct2, THEN conjunct1] a
  have b: "start_process test_lib test_embedded
             (\<lambda>G. GeneratePem test_lib G ''example.com'' test_world)
           = Aborted (PanicError ''Load root ca failed: malformed certificate'')"
    by auto
  have c: "init test_lib (test_embedded\<lparr>rootCAPem := []\<rparr>) = Inl NilPointerDereference"
    using t [of test_lib "test_embedded\<lparr>rootCAPem := []\<rparr>", THEN conjunct1]
    by (simp add: test_lib_def)
  have d: "init parsing_lib test_embedded = Inr \<lparr>rootCA = rootCA test_anchor, rootKey = 3\<rparr>"
    using t [of parsing_lib test_embedded, THEN conjunct2, THEN conjunct2, THEN conjunct2,
             THEN conjunct2, THEN conjunct1, rule_format,
             of "\<lparr>block_Type = [], block_Bytes = [45, 45]\<rparr>" "rootCA test_anchor"
                "\<lparr>block_Type = [], block_Bytes = [45, 45, 45]\<rparr>" 3]
    by (simp add: parsing_lib_def test_lib_def test_embedded_def)
  have "loadRootCA parsing_lib test_embedded = Inr (Inr (rootCA test_anchor))"
       "loadRootKey parsing_lib test_embedded = Inr (Inr 3)"
    by (simp_all add: loadRootCA_def loadRootKey_def parsing_lib_def test_lib_def
          test_embedded_def)
  with t [of parsing_lib test_embedded, THEN conjunct2, THEN conjunct2, THEN conjunct2,
          THEN conjunct2, THEN conjunct2, THEN conjunct2, rule_format,
          of "rootCA test_anchor" 3 "\<lambda>G. rootKey G"]
  have e: "start_process parsing_lib test_embedded (\<lambda>G. rootKey G) = Ran 3"
    by simp
  from a b c d e show ?thesis by blast
qed

subsection \<open>The calendar: Date undoes absDate, and the length of a span of years\<close>






















text \<open>The twenty-ninth of February 2024, noon: a year back and ten years on.\<close>

lemma AddDate_example:
  "AddDate test_time (-1) 0 0 = \<lparr>abs_day = 738579, nsec_of_day = 43200000000000\<rparr>"
  "AddDate test_time 10 0 0 = \<lparr>abs_day = 742597, nsec_of_day = 43200000000000\<rparr>"
  "absDate 738944 = (2024, 2, 29, 59)"
  "absDate 738579 = (2023, 3, 1, 59)"
  "absDate 742597 = (2034, 3, 1, 59)"
  by (simp_all add: AddDate_def absDate_def absYear_def monthDay_def Date_def norm_def
        daysSinceEpoch_def isLeap_def daysBefore_def Let_def test_time_def)

subsection \<open>The validity window\<close>





end
